theory Spec2Isabelle
  imports Main "HOL-Library.AList"
begin

section \<open>Values, dictionaries, exceptions and the log\<close>

text \<open>
  The page configuration is a Python \<open>dict\<close> from string keys to values that end up
  as JSON in the page. A dictionary is an association list in insertion order:
  \<open>d[k] = v\<close> is \<open>AList.update k v d\<close> (an existing key keeps its place, a new key
  goes last), \<open>d[k]\<close> and \<open>d.get(k)\<close> read \<open>map_of d k\<close>.
\<close>

datatype pyval =
    PNone
  | PBool bool
  | PInt int
  | PStr string
  | PList "pyval list"
  | PDict "(string \<times> pyval) list"

type_synonym page_config = "(string \<times> pyval) list"

text \<open>
  Exceptions that no handler of the module catches, and what a request handler ends
  with. Opening and reading a file fails either with an \<open>IOError\<close> (Python's
  \<open>OSError\<close>: the file is missing, is a directory, may not be read), which carries
  its text, or with an exception of another class, such as the \<open>UnicodeDecodeError\<close>
  of \<open>read()\<close> on bytes that are not text.
\<close>

datatype py_exception =
    KeyError string
  | AttributeError
  | TypeError
  | RuntimeError
  | ValueError
  | UnicodeDecodeError

datatype read_failure = IOError string | OtherError py_exception

datatype error = HTTPError nat "string option" | Uncaught py_exception

datatype level = Debug | Info | Error

type_synonym log_entry = "level \<times> string"

datatype response = Write string | Redirect string

subsection \<open>String methods of Python used by the handlers\<close>

definition startswith :: "string \<Rightarrow> string \<Rightarrow> bool" where
  "startswith s p = (take (length p) s = p)"

definition endswith :: "string \<Rightarrow> string \<Rightarrow> bool" where
  "endswith s p = (length p \<le> length s \<and> drop (length s - length p) s = p)"

definition strip :: "char \<Rightarrow> string \<Rightarrow> string" where
  \<comment> \<open>\<open>s.strip(c)\<close> for a one-character argument\<close>
  "strip c s = rev (dropWhile (\<lambda>x. x = c) (rev (dropWhile (\<lambda>x. x = c) s)))"

definition replace_char :: "char \<Rightarrow> char \<Rightarrow> string \<Rightarrow> string" where
  \<comment> \<open>\<open>s.replace(a, b)\<close> for one-character strings \<open>a\<close>, \<open>b\<close>\<close>
  "replace_char a b s = map (\<lambda>x. if x = a then b else x) s"

section \<open>Collaborators outside the module\<close>

text \<open>
  The handlers call into \<open>jupyter_server\<close>, \<open>jupyterlab_server\<close>, \<open>os.path\<close>,
  \<open>pathlib\<close>, the template engine and the file system. None of that code belongs to
  the module, so it is a parameter of the model: one field per callee, named as the module
  imports it. A callee that can raise on a string returns a sum with the exception on the
  left: \<open>Path(s).expanduser()\<close> raises \<open>RuntimeError\<close> when it finds no home
  directory, \<open>url_is_absolute\<close> passes on the \<open>ValueError\<close> of \<open>urlparse\<close>,
  reading the extensions' page configuration and merging it can fail on what is on disk.
  \<open>is_url\<close> catches the \<open>ValueError\<close> itself. \<open>relpath\<close> is called inside a
  \<open>try\<close>, so its failure is the text of the exception. The trait names are those of
  \<open>LabConfig\<close>, which the application inherits: \<open>getattr\<close> finds each of them and
  \<open>_camelCase\<close> finds a letter in each.
\<close>

record env =
  version :: string
    \<comment> \<open>\<open>__version__\<close>\<close>
  ujoin :: "string list \<Rightarrow> string"
    \<comment> \<open>\<open>url_path_join(*pieces)\<close>\<close>
  url_escape :: "string \<Rightarrow> string"
  url_is_absolute :: "string \<Rightarrow> py_exception + bool"
  is_url :: "string \<Rightarrow> bool"
  camelCase :: "string \<Rightarrow> string"
    \<comment> \<open>\<open>_camelCase\<close>\<close>
  os_sep :: char
  expanduser :: "string \<Rightarrow> py_exception + string"
    \<comment> \<open>\<open>Path(s).expanduser()\<close>, as \<open>normpath\<close> reads it\<close>
  normpath :: "string \<Rightarrow> string"
  relpath :: "string \<Rightarrow> string \<Rightarrow> string + string"
    \<comment> \<open>\<open>os.path.relpath(path, start)\<close>\<close>
  jupyter_config_dir :: string
  trait_names :: "string list"
    \<comment> \<open>\<open>LabConfig().trait_names()\<close>\<close>
  recursive_update :: "page_config \<Rightarrow> page_config \<Rightarrow> py_exception + page_config"
    \<comment> \<open>updates its first argument in place; the model returns the updated dictionary\<close>
  labextensions_page_config :: "string list \<Rightarrow> py_exception + page_config"
    \<comment> \<open>\<open>jupyterlab_server.config.get_page_config(labextensions_path, logger=...)\<close>\<close>
  render_template :: "string \<Rightarrow> page_config \<Rightarrow> string"
  format_value :: "pyval \<Rightarrow> string"
    \<comment> \<open>how an f-string prints a value that is not a string\<close>
  is_file :: "string \<Rightarrow> bool"
    \<comment> \<open>\<open>Path(p).is_file()\<close>\<close>
  read_text :: "string \<Rightarrow> read_failure + string"
    \<comment> \<open>\<open>Path(p).open()\<close> and \<open>read()\<close>\<close>

section \<open>The request handler and what it reads\<close>

text \<open>
  \<open>self.settings\<close> is the web application's settings dictionary. The model keeps the
  keys the module reads, each optional as \<open>settings.get\<close> treats it; \<open>token\<close> is read
  with \<open>settings["token"]\<close> and the server always sets it.

  The entry \<open>page_config_hook\<close> of the settings is called as
  \<open>page_config_hook(self, page_config)\<close>. A record cannot hold a function of itself,
  so the hook stands beside the other fields: \<open>request_handler\<close> is the handler as the
  hook receives it, \<open>handler\<close> adds the hook. The hook returns the dictionary to use, or
  raises.
\<close>

record settings =
  base_url :: "string option"
  page_config_data :: "page_config option"
  terminals_available :: "bool option"
  token :: string
  server_root_dir :: "string option"
  mathjax_config :: "string option"
  mathjax_url :: "string option"

record app =
  expose_app_in_browser :: bool
  getattr :: "string \<Rightarrow> pyval"
    \<comment> \<open>\<open>getattr(app, name)\<close> for a trait name\<close>
  extra_labextensions_path :: "string list"
  labextensions_path :: "string list"

record contents_model =
  model_type :: string
    \<comment> \<open>\<open>model["type"]\<close>\<close>

record contents_manager =
  dir_exists :: "string \<Rightarrow> bool"
  is_hidden :: "string \<Rightarrow> bool"
  allow_hidden :: bool
  file_exists :: "string \<Rightarrow> bool"
  cm_get :: "string \<Rightarrow> bool \<Rightarrow> contents_model"
    \<comment> \<open>\<open>cm.get(path, content=...)\<close>\<close>

record request_handler =
  settings :: settings
  self_base_url :: string
    \<comment> \<open>the property \<open>self.base_url\<close>\<close>
  name :: string
  extensionapp :: app
  preferred_dir :: string
    \<comment> \<open>\<open>self.serverapp.preferred_dir\<close>\<close>
  contents_manager :: contents_manager
  request_path :: string
  log :: "log_entry list"
  headers :: "(string \<times> string) list"

record handler = request_handler +
  page_config_hook :: "(request_handler \<Rightarrow> page_config \<Rightarrow> py_exception + page_config) option"
    \<comment> \<open>\<open>self.settings.get("page_config_hook")\<close>\<close>

section \<open>\<open>NotebookBaseHandler.get_page_config\<close>\<close>

definition dict_update :: "(string \<times> pyval) list \<Rightarrow> page_config \<Rightarrow> page_config" where
  \<comment> \<open>\<open>d.update({...})\<close> and the keys written after \<open>**d\<close> in a dictionary display\<close>
  "dict_update kvs d = fold (\<lambda>(k, v). AList.update k v) kvs d"

definition seed_page_config :: "env \<Rightarrow> handler \<Rightarrow> page_config \<Rightarrow> page_config" where
  "seed_page_config e h data =
     dict_update
       [(''appVersion'', PStr (version e)),
        (''baseUrl'', PStr (self_base_url h)),
        (''terminalsAvailable'',
           PBool (case terminals_available (settings h) of None \<Rightarrow> False | Some b \<Rightarrow> b)),
        (''token'', PStr (token (settings h))),
        (''fullStaticUrl'', PStr (ujoin e [self_base_url h, ''static'', name h])),
        (''frontendUrl'', PStr (ujoin e [self_base_url h, ''/''])),
        (''exposeAppInBrowser'', PBool (expose_app_in_browser (extensionapp h)))]
       data"

definition server_root :: "env \<Rightarrow> handler \<Rightarrow> py_exception + string" where
  \<comment> \<open>the two statements before the \<open>try\<close>: an exception of \<open>expanduser\<close> is not caught\<close>
  "server_root e h =
     (case expanduser e
             (replace_char (os_sep e) CHR ''/''
                (case server_root_dir (settings h) of None \<Rightarrow> [] | Some d \<Rightarrow> d)) of
        Inl x \<Rightarrow> Inl x
      | Inr p \<Rightarrow> Inr (normpath e p))"

definition preferred_path :: "env \<Rightarrow> handler \<Rightarrow> string \<Rightarrow> log_entry list \<times> string" where
  \<comment> \<open>the \<open>try\<close> block: the log entries it adds and the value it stores\<close>
  "preferred_path e h root =
     (if preferred_dir h \<noteq> root
      then (case relpath e (preferred_dir h) root of
              Inr r \<Rightarrow> ([], ''/'' @ r)
            | Inl msg \<Rightarrow> ([(Error, ''Error determining preferred path: '' @ msg)], ''/''))
      else ([], ''/''))"

definition configured_mathjax_url :: "handler \<Rightarrow> string" where
  "configured_mathjax_url h =
     (case mathjax_url (settings h) of
        None \<Rightarrow> ''https://cdnjs.cloudflare.com/ajax/libs/mathjax/2.7.7/MathJax.js''
      | Some u \<Rightarrow> u)"

definition full_mathjax_url :: "env \<Rightarrow> handler \<Rightarrow> py_exception + string" where
  "full_mathjax_url e h =
     (let mathjax_url = configured_mathjax_url h
      in case url_is_absolute e mathjax_url of
           Inl x \<Rightarrow> Inl x
         | Inr absolute \<Rightarrow>
             Inr (if \<not> absolute \<and> \<not> startswith mathjax_url (self_base_url h)
                  then ujoin e [self_base_url h, mathjax_url]
                  else mathjax_url))"

fun add_traits :: "env \<Rightarrow> app \<Rightarrow> string list \<Rightarrow> page_config \<Rightarrow> page_config" where
  "add_traits e a [] pc = pc"
| "add_traits e a (n # ns) pc = add_traits e a ns (AList.update (camelCase e n) (getattr a n) pc)"

text \<open>
  The second loop. A trait whose name ends in \<open>_url\<close> and whose value is not a string
  makes \<open>is_url\<close> or \<open>ujoin\<close> raise \<open>AttributeError\<close>, which nothing catches.
\<close>

fun add_full_urls ::
  "env \<Rightarrow> app \<Rightarrow> string \<Rightarrow> string list \<Rightarrow> page_config \<Rightarrow> py_exception + page_config" where
  "add_full_urls e a b [] pc = Inr pc"
| "add_full_urls e a b (n # ns) pc =
     (if endswith n ''_url''
      then (case getattr a n of
              PStr full_url \<Rightarrow>
                add_full_urls e a b ns
                  (AList.update (camelCase e (''full_'' @ n))
                     (PStr (if \<not> is_url e full_url then ujoin e [b, full_url] else full_url)) pc)
            | _ \<Rightarrow> Inl AttributeError)
      else add_full_urls e a b ns pc)"

definition static_page_config :: "env \<Rightarrow> handler \<Rightarrow> string \<Rightarrow> string \<Rightarrow> page_config" where
  \<comment> \<open>the dictionary as it stands before the loops over the trait names, given the
      preferred path and the resolved MathJax URL\<close>
  "static_page_config e h preferred mathjax =
     (let page_config_data =
            (case page_config_data (settings h) of None \<Rightarrow> [] | Some d \<Rightarrow> d);
          page_config = seed_page_config e h page_config_data;
          page_config = AList.update ''preferredPath'' (PStr preferred) page_config
      in dict_update
           [(''mathjaxConfig'',
               PStr (case mathjax_config (settings h) of
                       None \<Rightarrow> ''TeX-AMS_HTML-full,Safe'' | Some c \<Rightarrow> c)),
            (''fullMathjaxUrl'', PStr mathjax),
            (''jupyterConfigDir'', PStr (jupyter_config_dir e))]
           page_config)"

text \<open>
  The call returns the handler as it leaves it (the \<open>page_config_data\<close> default stored
  by \<open>setdefault\<close>, the log) and the dictionary, or the exception that ended it.
\<close>

definition get_page_config :: "env \<Rightarrow> handler \<Rightarrow> handler \<times> (py_exception + page_config)" where
  "get_page_config e h =
     (let a = extensionapp h;
          b = (case base_url (settings h) of None \<Rightarrow> ''/'' | Some u \<Rightarrow> u);
          page_config_data =
            (case page_config_data (settings h) of None \<Rightarrow> [] | Some d \<Rightarrow> d);
          h1 = h\<lparr>settings := (settings h)\<lparr>page_config_data := Some page_config_data\<rparr>\<rparr>
      in case server_root e h of
           Inl x \<Rightarrow> (h1, Inl x)
         | Inr root \<Rightarrow>
             (let h2 = h1\<lparr>log := log h @ fst (preferred_path e h root)\<rparr>
              in case full_mathjax_url e h of
                   Inl x \<Rightarrow> (h2, Inl x)
                 | Inr mathjax \<Rightarrow>
                     (let page_config =
                            add_traits e a (trait_names e)
                              (static_page_config e h (snd (preferred_path e h root)) mathjax)
                      in case add_full_urls e a b (trait_names e) page_config of
                           Inl x \<Rightarrow> (h2, Inl x)
                         | Inr page_config \<Rightarrow>
                             (case labextensions_page_config e
                                     (extra_labextensions_path a @ labextensions_path a) of
                                Inl x \<Rightarrow> (h2, Inl x)
                              | Inr extensions \<Rightarrow>
                                  (case recursive_update e page_config extensions of
                                     Inl x \<Rightarrow> (h2, Inl x)
                                   | Inr page_config \<Rightarrow>
                                       (case page_config_hook h of
                                          None \<Rightarrow> (h2, Inr page_config)
                                        | Some hook \<Rightarrow>
                                            (h2, hook (request_handler.truncate h2) page_config)))))))"

section \<open>\<open>TreeHandler.get\<close>\<close>

text \<open>
  The two branches that answer the request. \<open>serve_listing\<close> builds the page
  configuration, stores the path under \<open>treePath\<close> and writes the rendered
  \<open>tree.html\<close>; an exception of \<open>get_page_config\<close> passes through it uncaught.
  \<open>redirect_file\<close> asks the contents manager for the model with \<open>content=False\<close>
  and redirects by its type.
\<close>

definition serve_listing :: "env \<Rightarrow> handler \<Rightarrow> string \<Rightarrow> handler \<times> (error + response)" where
  "serve_listing e h path =
     (case get_page_config e h of
        (h', Inl x) \<Rightarrow> (h', Inl (Uncaught x))
      | (h', Inr page_config) \<Rightarrow>
          (h', Inr (Write (render_template e ''tree.html''
                             (AList.update ''treePath'' (PStr path) page_config)))))"

definition redirect_file :: "env \<Rightarrow> handler \<Rightarrow> string \<Rightarrow> handler \<times> (error + response)" where
  "redirect_file e h path =
     (let model = cm_get (contents_manager h) path False;
          url = (if model_type model = ''notebook''
                 then ujoin e [self_base_url h, ''notebooks'', url_escape e path]
                 else ujoin e [self_base_url h, ''files'', url_escape e path])
      in (h\<lparr>log := log h @ [(Debug, ''Redirecting '' @ request_path h @ '' to '' @ url)]\<rparr>,
          Inr (Redirect url)))"

definition TreeHandler_get :: "env \<Rightarrow> handler \<Rightarrow> string \<Rightarrow> handler \<times> (error + response)" where
  "TreeHandler_get e h path0 =
     (let path = strip CHR ''/'' path0;
          cm = contents_manager h
      in if dir_exists cm path
         then (if is_hidden cm path \<and> \<not> allow_hidden cm
               then (h\<lparr>log := log h @ [(Info, ''Refusing to serve hidden directory, via 404 Error'')]\<rparr>,
                     Inl (HTTPError 404 None))
               else serve_listing e h path)
         else if file_exists cm path
         then redirect_file e h path
         else (h, Inl (HTTPError 404 None)))"

section \<open>\<open>CustomCssHandler.get\<close>\<close>

text \<open>
  \<open>re.match("^(.*?)static", s)\<close>: the match starts at the first character, the group is
  the shortest run of characters other than a line break that is followed by
  \<open>static\<close>. The result is the group, \<open>None\<close> when nothing matches.
\<close>

fun re_match_static :: "string \<Rightarrow> string option" where
  "re_match_static [] = None"
| "re_match_static (c # cs) =
     (if startswith (c # cs) ''static'' then Some []
      else if c = CHR 0x0A then None
      else map_option (\<lambda>g. c # g) (re_match_static cs))"

definition fstring :: "env \<Rightarrow> pyval \<Rightarrow> string" where
  \<comment> \<open>\<open>f"{v}"\<close>\<close>
  "fstring e v = (case v of PStr s \<Rightarrow> s | _ \<Rightarrow> format_value e v)"

definition custom_css_file :: "env \<Rightarrow> page_config \<Rightarrow> py_exception + string" where
  \<comment> \<open>the path the handler goes on to open\<close>
  "custom_css_file e page_config =
     (case map_of page_config ''jupyterConfigDir'' of
        None \<Rightarrow> Inl (KeyError ''jupyterConfigDir'')
      | Some d \<Rightarrow>
          (let primary = fstring e d @ ''/custom/custom.css''
           in if \<not> is_file e primary
              then (case map_of page_config ''staticDir'' of
                      None \<Rightarrow> Inl (KeyError ''staticDir'')
                    | Some (PStr static_dir) \<Rightarrow>
                        (case re_match_static static_dir of
                           Some g \<Rightarrow> Inr (g @ ''custom/custom.css'')
                         | None \<Rightarrow> Inr primary)
                    | Some _ \<Rightarrow> Inl TypeError)
              else Inr primary))"

definition CustomCssHandler_get :: "env \<Rightarrow> handler \<Rightarrow> handler \<times> (error + response)" where
  "CustomCssHandler_get e h =
     (let h0 = h\<lparr>headers := AList.update ''Content-Type'' ''text/css'' (headers h)\<rparr>
      in case get_page_config e h0 of
           (h1, Inl x) \<Rightarrow> (h1, Inl (Uncaught x))
         | (h1, Inr page_config) \<Rightarrow>
             (case custom_css_file e page_config of
                Inl x \<Rightarrow> (h1, Inl (Uncaught x))
              | Inr file \<Rightarrow>
                  (case read_text e file of
                     Inr css \<Rightarrow> (h1, Inr (Write css))
                   | Inl (IOError msg) \<Rightarrow>
                       (h1\<lparr>log := log h1 @ [(Error, ''Error reading custom CSS file: '' @ msg)]\<rparr>,
                        Inl (HTTPError 500 (Some ''Custom CSS file not found.'')))
                   | Inl (OtherError x) \<Rightarrow> (h1, Inl (Uncaught x)))))"

definition page_config_entry :: "handler \<times> (py_exception + page_config) \<Rightarrow> string \<Rightarrow> pyval option" where
  \<comment> \<open>the entry under a key in the dictionary a call returned; \<open>None\<close> when the call raised\<close>
  "page_config_entry r k = (case snd r of Inr page_config \<Rightarrow> map_of page_config k | Inl x \<Rightarrow> None)"

section \<open>Conditions on the steps of \<open>get_page_config\<close>\<close>






section \<open>A concrete environment\<close>

text \<open>
  To run the handlers on concrete requests the collaborators need bodies. The ones below
  follow the library functions on ASCII input: \<open>str.title\<close>, \<open>_camelCase\<close>,
  \<open>url_path_join\<close>, \<open>url_escape\<close>, \<open>urlparse\<close> as far as the scheme and the
  network location (\<open>url_is_absolute\<close> asks whether the path after them starts with a
  slash, \<open>is_url\<close> whether both are present), \<open>posixpath.normpath\<close> and
  \<open>posixpath.relpath\<close> relative to a working directory, \<open>Path.expanduser\<close> on a
  machine with one user, and \<open>recursive_update\<close> (a \<open>None\<close> deletes its key, a
  nested dictionary is merged key by key and pruned when it ends up empty, any other value
  replaces).
\<close>

definition ascii_lower :: string where "ascii_lower = ''abcdefghijklmnopqrstuvwxyz''"
definition ascii_upper :: string where "ascii_upper = ''ABCDEFGHIJKLMNOPQRSTUVWXYZ''"
definition digits :: string where "digits = ''0123456789''"

definition isalpha :: "char \<Rightarrow> bool" where
  "isalpha c = (c \<in> set (ascii_lower @ ascii_upper))"

definition lower :: "char \<Rightarrow> char" where
  "lower c = (case map_of (zip ascii_upper ascii_lower) c of Some l \<Rightarrow> l | None \<Rightarrow> c)"

definition upper :: "char \<Rightarrow> char" where
  "upper c = (case map_of (zip ascii_lower ascii_upper) c of Some u \<Rightarrow> u | None \<Rightarrow> c)"

fun title :: "bool \<Rightarrow> string \<Rightarrow> string" where
  "title prev [] = []"
| "title prev (c # cs) =
     (if isalpha c then (if prev then lower c else upper c) # title True cs
      else c # title False cs)"

definition py_camelCase :: "string \<Rightarrow> string" where
  "py_camelCase base =
     (case filter isalpha (title False base) of
        [] \<Rightarrow> []
      | c # cs \<Rightarrow> lower c # cs)"

fun join :: "string \<Rightarrow> string list \<Rightarrow> string" where
  "join sep [] = []"
| "join sep [x] = x"
| "join sep (x # y # ys) = x @ sep @ join sep (y # ys)"

fun split :: "char \<Rightarrow> string \<Rightarrow> string list" where
  "split c [] = [[]]"
| "split c (x # xs) =
     (if x = c then [] # split c xs
      else (case split c xs of w # ws \<Rightarrow> (x # w) # ws | [] \<Rightarrow> [[x]]))"

definition url_path_join :: "string list \<Rightarrow> string" where
  "url_path_join pieces =
     (let initial = startswith (hd pieces) ''/'';
          final = endswith (last pieces) ''/'';
          stripped = map (strip CHR ''/'') pieces;
          result = join ''/'' (filter (\<lambda>s. s \<noteq> []) stripped);
          result = (if initial then ''/'' @ result else result);
          result = (if final then result @ ''/'' else result)
      in if result = ''//'' then ''/'' else result)"

definition hexdigit :: "nat \<Rightarrow> char" where
  "hexdigit n = ''0123456789ABCDEF'' ! n"

definition quote_char :: "char \<Rightarrow> string" where
  "quote_char c =
     (if c \<in> set (ascii_lower @ ascii_upper @ digits @ ''_.-~/'') then [c]
      else [CHR ''%'', hexdigit (of_char c div 16), hexdigit (of_char c mod 16)])"

definition py_url_escape :: "string \<Rightarrow> string" where
  "py_url_escape path = concat (map quote_char path)"

text \<open>
  \<open>urlsplit\<close> drops leading control characters and spaces and every tab, line feed
  and carriage return, takes a scheme when the text before the first colon is one, takes
  a network location after \<open>//\<close> up to the next \<open>/\<close>, \<open>?\<close> or \<open>#\<close>, and
  raises \<open>ValueError\<close> when the location has one square bracket without the other.
\<close>

definition url_clean :: "string \<Rightarrow> string" where
  "url_clean url =
     filter (\<lambda>c. c \<notin> set [CHR 0x09, CHR 0x0A, CHR 0x0D])
       (dropWhile (\<lambda>c. (of_char c :: nat) \<le> 32) url)"

definition split_scheme :: "string \<Rightarrow> string \<times> string" where
  "split_scheme url =
     (let s = takeWhile (\<lambda>c. c \<noteq> CHR '':'') url
      in if s \<noteq> [] \<and> length s < length url \<and> isalpha (hd url)
            \<and> list_all (\<lambda>c. c \<in> set (ascii_lower @ ascii_upper @ digits @ ''+-.'')) s
         then (map lower s, drop (length s + 1) url)
         else ([], url))"

definition split_netloc :: "string \<Rightarrow> string \<times> string" where
  "split_netloc url =
     (if startswith url ''//''
      then (takeWhile (\<lambda>c. c \<notin> set ''/?#'') (drop 2 url),
            dropWhile (\<lambda>c. c \<notin> set ''/?#'') (drop 2 url))
      else ([], url))"

definition urlsplit :: "string \<Rightarrow> py_exception + string \<times> string \<times> string" where
  \<comment> \<open>scheme, network location, and the rest: path, query and fragment\<close>
  "urlsplit url =
     (let (scheme, url1) = split_scheme (url_clean url);
          (netloc, rest) = split_netloc url1
      in if (CHR ''['' \<in> set netloc) \<noteq> (CHR '']'' \<in> set netloc) then Inl ValueError
         else Inr (scheme, netloc, rest))"

definition py_url_is_absolute :: "string \<Rightarrow> py_exception + bool" where
  "py_url_is_absolute url =
     (case urlsplit url of
        Inl x \<Rightarrow> Inl x
      | Inr (scheme, netloc, rest) \<Rightarrow> Inr (startswith rest ''/''))"

definition py_is_url :: "string \<Rightarrow> bool" where
  "py_is_url url =
     (case urlsplit url of
        Inl x \<Rightarrow> False
      | Inr (scheme, netloc, rest) \<Rightarrow> scheme \<noteq> [] \<and> netloc \<noteq> [])"

fun normpath_comps :: "bool \<Rightarrow> string list \<Rightarrow> string list \<Rightarrow> string list" where
  "normpath_comps initial_slashes [] new_comps = new_comps"
| "normpath_comps initial_slashes (part # comps) new_comps =
     (if part = [] \<or> part = ''.'' then normpath_comps initial_slashes comps new_comps
      else if part \<noteq> ''..'' \<or> (\<not> initial_slashes \<and> new_comps = [])
                \<or> (new_comps \<noteq> [] \<and> last new_comps = ''..'')
      then normpath_comps initial_slashes comps (new_comps @ [part])
      else normpath_comps initial_slashes comps (butlast new_comps))"

definition posix_normpath :: "string \<Rightarrow> string" where
  "posix_normpath path =
     (if path = [] then ''.''
      else (let slashes = (if startswith path ''//'' \<and> \<not> startswith path ''///'' then ''//''
                           else if startswith path ''/'' then ''/'' else []);
                p = slashes @ join ''/'' (normpath_comps (slashes \<noteq> []) (split CHR ''/'' path) [])
            in if p = [] then ''.'' else p))"

definition posix_abspath :: "string \<Rightarrow> string \<Rightarrow> string" where
  "posix_abspath cwd path =
     posix_normpath (if startswith path ''/'' then path
                     else if endswith cwd ''/'' then cwd @ path else cwd @ ''/'' @ path)"

fun commonprefix :: "string list \<Rightarrow> string list \<Rightarrow> nat" where
  "commonprefix (x # xs) (y # ys) = (if x = y then Suc (commonprefix xs ys) else 0)"
| "commonprefix _ _ = 0"

definition posix_relpath :: "string \<Rightarrow> string \<Rightarrow> string \<Rightarrow> string + string" where
  "posix_relpath cwd path start =
     (if path = [] then Inl ''no path specified''
      else (let start_list = filter (\<lambda>x. x \<noteq> []) (split CHR ''/'' (posix_abspath cwd start));
                path_list = filter (\<lambda>x. x \<noteq> []) (split CHR ''/'' (posix_abspath cwd path));
                i = commonprefix start_list path_list;
                rel_list = replicate (length start_list - i) ''..'' @ drop i path_list
            in if rel_list = [] then Inr ''.'' else Inr (join ''/'' rel_list)))"

definition falsy :: "pyval \<Rightarrow> bool" where
  "falsy v = (v = PNone \<or> v = PBool False \<or> v = PInt 0 \<or> v = PStr [] \<or> v = PList [] \<or> v = PDict [])"

function deep_update :: "page_config \<Rightarrow> page_config \<Rightarrow> py_exception + page_config" where
  "deep_update target [] = Inr target"
| "deep_update target ((k, PDict d) # new) =
     (let target1 = (if map_of target k = None then AList.update k (PDict []) target else target)
      in case map_of target1 k of
           Some (PDict sub) \<Rightarrow>
             (case deep_update sub d of
                Inl x \<Rightarrow> Inl x
              | Inr sub' \<Rightarrow>
                  deep_update (if sub' = [] then AList.delete k target1
                               else AList.update k (PDict sub') target1) new)
         | Some other \<Rightarrow>
             (case d of
                [] \<Rightarrow> deep_update (if falsy other then AList.delete k target1 else target1) new
              | (k2, PNone) # _ \<Rightarrow> Inl (case other of PList _ \<Rightarrow> TypeError | _ \<Rightarrow> AttributeError)
              | _ \<Rightarrow> Inl TypeError)
         | None \<Rightarrow> Inl (KeyError k))"
| "deep_update target ((k, PNone) # new) = deep_update (AList.delete k target) new"
| "deep_update target ((k, PBool b) # new) = deep_update (AList.update k (PBool b) target) new"
| "deep_update target ((k, PInt i) # new) = deep_update (AList.update k (PInt i) target) new"
| "deep_update target ((k, PStr s) # new) = deep_update (AList.update k (PStr s) target) new"
| "deep_update target ((k, PList l) # new) = deep_update (AList.update k (PList l) target) new"
  by pat_completeness auto
termination
  by (relation "measure (\<lambda>(t, n). size_list (size_prod (\<lambda>_. 0) size) n)") auto

text \<open>
  \<open>Path(s)\<close> drops empty and \<open>.\<close> components. \<open>expanduser\<close> replaces a first
  component \<open>~\<close> or \<open>~user\<close> by the home directory and raises \<open>RuntimeError\<close> for
  a user it does not know.
\<close>

definition posix_path :: "string \<Rightarrow> string" where
  "posix_path s =
     (let slashes = (if startswith s ''//'' \<and> \<not> startswith s ''///'' then ''//''
                     else if startswith s ''/'' then ''/'' else []);
          p = slashes @ join ''/'' (filter (\<lambda>c. c \<noteq> [] \<and> c \<noteq> ''.'') (split CHR ''/'' s))
      in if p = [] then ''.'' else p)"

definition posix_expanduser :: "string \<Rightarrow> string \<Rightarrow> string \<Rightarrow> py_exception + string" where
  "posix_expanduser user home s =
     (let p = posix_path s
      in if startswith p ''~''
         then (let u = takeWhile (\<lambda>c. c \<noteq> CHR ''/'') (drop 1 p);
                   rest = dropWhile (\<lambda>c. c \<noteq> CHR ''/'') (drop 1 p)
               in if u = [] \<or> u = user then Inr (home @ rest) else Inl RuntimeError)
         else Inr p)"

definition format_pyval :: "pyval \<Rightarrow> string" where
  "format_pyval v =
     (case v of PNone \<Rightarrow> ''None'' | PBool True \<Rightarrow> ''True'' | PBool False \<Rightarrow> ''False''
      | PStr s \<Rightarrow> s | _ \<Rightarrow> ''...'')"

text \<open>
  The file system is a list of paths with what is stored there: text, or bytes that do
  not decode. A missing file gives the \<open>FileNotFoundError\<close>, whose text quotes the path.
\<close>

datatype file_entry = TextFile string | BinaryFile

definition posix_read_text :: "(string \<times> file_entry) list \<Rightarrow> string \<Rightarrow> read_failure + string" where
  "posix_read_text files p =
     (case map_of files p of
        Some (TextFile text) \<Rightarrow> Inr text
      | Some BinaryFile \<Rightarrow> Inl (OtherError UnicodeDecodeError)
      | None \<Rightarrow>
          Inl (IOError (''[Errno 2] No such file or directory: '' @ [CHR 0x27] @ p @ [CHR 0x27])))"

definition posix_env :: "(string \<times> file_entry) list \<Rightarrow> env" where
  "posix_env files =
     \<lparr> version = ''7.0.0'',
       ujoin = url_path_join,
       url_escape = py_url_escape,
       url_is_absolute = py_url_is_absolute,
       is_url = py_is_url,
       camelCase = py_camelCase,
       os_sep = CHR ''/'',
       expanduser = posix_expanduser ''jovyan'' ''/home/jovyan'',
       normpath = posix_normpath,
       relpath = posix_relpath ''/home/jovyan'',
       jupyter_config_dir = ''/home/jovyan/.jupyter'',
       trait_names = [''app_url'', ''static_dir'', ''static_url''],
       recursive_update = deep_update,
       labextensions_page_config =
         (\<lambda>paths. Inr [(''federated_extensions'', PList []), (''disabledExtensions'', PList [])]),
       render_template = (\<lambda>template page_config. ''<'' @ template @ ''>''),
       format_value = format_pyval,
       is_file = (\<lambda>p. map_of files p \<noteq> None),
       read_text = posix_read_text files \<rparr>"

definition example_app :: app where
  "example_app =
     \<lparr> expose_app_in_browser = False,
       getattr = (\<lambda>n. if n = ''app_url'' then PStr ''/lab''
                       else if n = ''static_dir'' then PStr ''/opt/share/jupyter/lab/static''
                       else if n = ''static_url'' then PStr ''https://cdn.example.org/static''
                       else PNone),
       extra_labextensions_path = [],
       labextensions_path = [''/opt/share/jupyter/labextensions''] \<rparr>"

definition example_settings :: settings where
  "example_settings =
     \<lparr> base_url = Some ''/jupyter/'',
       page_config_data = None,
       terminals_available = Some True,
       token = ''secret'',
       server_root_dir = Some ''/srv/notebooks'',
       mathjax_config = None,
       mathjax_url = None \<rparr>"

definition example_contents :: contents_manager where
  "example_contents =
     \<lparr> dir_exists = (\<lambda>p. p \<in> set [[], ''project/notes'', ''.git'']),
       is_hidden = (\<lambda>p. p \<in> set [''.git'', ''.env'']),
       allow_hidden = False,
       file_exists = (\<lambda>p. p \<in> set [''a.ipynb'', ''readme.txt'', ''.env'']),
       cm_get = (\<lambda>p content.
                   \<lparr> model_type = (if endswith p ''.ipynb'' then ''notebook'' else ''file'') \<rparr>) \<rparr>"

definition example_handler :: handler where
  "example_handler =
     \<lparr> settings = example_settings,
       self_base_url = ''/jupyter/'',
       name = ''notebook'',
       extensionapp = example_app,
       preferred_dir = ''/srv/notebooks/projects/a'',
       contents_manager = example_contents,
       request_path = ''/jupyter/tree/a.ipynb'',
       log = [],
       headers = [],
       page_config_hook = None \<rparr>"

definition hooked_handler :: handler where
  "hooked_handler =
     example_handler
       \<lparr> preferred_dir := ''/srv/notebooks'',
         page_config_hook :=
           Some (\<lambda>self page_config.
                   Inr (AList.update ''preferredPath'' (PStr ''/shared'') page_config)) \<rparr>"

definition mathjax_handler :: "string \<Rightarrow> handler" where
  "mathjax_handler u =
     example_handler
       \<lparr> settings := example_settings \<lparr> base_url := Some ''/'', mathjax_url := Some u \<rparr>,
         self_base_url := ''/'' \<rparr>"

definition full_url_hook_handler :: handler where
  "full_url_hook_handler =
     example_handler
       \<lparr> page_config_hook :=
           Some (\<lambda>self page_config.
                   Inr (AList.update ''fullAppUrl'' (PStr ''https://hub.example.org/lab'')
                          page_config)) \<rparr>"

definition css_page_config :: "string \<Rightarrow> page_config" where
  "css_page_config static_dir =
     [(''jupyterConfigDir'', PStr ''/home/jovyan/.jupyter''), (''staticDir'', PStr static_dir)]"

section \<open>Evaluation rules\<close>

lemmas library_defs =
  ascii_lower_def ascii_upper_def digits_def isalpha_def lower_def upper_def py_camelCase_def
  url_path_join_def startswith_def endswith_def strip_def hexdigit_def quote_char_def
  py_url_escape_def url_clean_def split_scheme_def split_netloc_def urlsplit_def
  py_url_is_absolute_def py_is_url_def posix_normpath_def posix_abspath_def posix_relpath_def
  posix_path_def posix_expanduser_def posix_read_text_def falsy_def format_pyval_def
  replace_char_def

lemmas example_defs =
  posix_env_def example_app_def example_settings_def example_contents_def example_handler_def
  hooked_handler_def mathjax_handler_def full_url_hook_handler_def

lemmas handler_defs =
  get_page_config_def static_page_config_def seed_page_config_def dict_update_def
  server_root_def preferred_path_def configured_mathjax_url_def full_mathjax_url_def
  serve_listing_def redirect_file_def TreeHandler_get_def custom_css_file_def fstring_def
  CustomCssHandler_get_def page_config_entry_def request_handler.truncate_def Let_def

section \<open>Facts about the steps of \<open>get_page_config\<close>\<close>






lemma get_page_config_headers: "headers (fst (get_page_config e h)) = headers h"
  by (simp add: get_page_config_def Let_def split: sum.splits option.splits)





section \<open>The tree handler\<close>

lemma serve_listing_not_http: "snd (serve_listing e h p) \<noteq> Inl (HTTPError c m)"
  by (simp add: serve_listing_def split: prod.splits sum.splits)

text \<open>
  Claim C1. Let \<open>path\<close> be the request path without its surrounding slashes.
  \<open>TreeHandler.get\<close> ends with \<open>HTTPError(404)\<close> exactly when \<open>path\<close> is an
  existing directory that is hidden while hidden paths are not allowed, or \<open>path\<close> is
  neither an existing directory nor an existing file. In the first case the handler has
  logged, at level info, that it refuses a hidden directory. In every other case it
  serves the listing of \<open>path\<close> (an existing directory) or redirects (an existing file).
\<close>

theorem tree_not_found_iff:
  assumes "path = strip CHR ''/'' path0" and "cm = contents_manager h"
  shows
  "((snd (TreeHandler_get e h path0) = Inl (HTTPError 404 None)) =
      ((dir_exists cm path \<and> is_hidden cm path \<and> \<not> allow_hidden cm)
       \<or> (\<not> dir_exists cm path \<and> \<not> file_exists cm path)))
   \<and> (dir_exists cm path \<and> is_hidden cm path \<and> \<not> allow_hidden cm
        \<longrightarrow> fst (TreeHandler_get e h path0)
              = h\<lparr>log := log h @ [(Info, ''Refusing to serve hidden directory, via 404 Error'')]\<rparr>)
   \<and> (\<not> (dir_exists cm path \<and> is_hidden cm path \<and> \<not> allow_hidden cm)
        \<and> \<not> (\<not> dir_exists cm path \<and> \<not> file_exists cm path)
        \<longrightarrow> TreeHandler_get e h path0
              = (if dir_exists cm path then serve_listing e h path else redirect_file e h path))"
  using assms serve_listing_not_http[of e h path 404 None]
  by (auto simp add: TreeHandler_get_def Let_def redirect_file_def)

theorem tree_not_found_iff_witness:
  "TreeHandler_get (posix_env []) example_handler ''/.git/''
     = (example_handler\<lparr>log := [(Info, ''Refusing to serve hidden directory, via 404 Error'')]\<rparr>,
        Inl (HTTPError 404 None))
   \<and> snd (TreeHandler_get (posix_env []) example_handler ''/missing'') = Inl (HTTPError 404 None)
   \<and> snd (TreeHandler_get (posix_env []) (example_handler\<lparr>contents_manager := example_contents\<lparr>allow_hidden := True\<rparr>\<rparr>) ''/.git/'')
       = Inr (Write ''<tree.html>'')"
proof -
  have "snd (TreeHandler_get (posix_env []) example_handler ''/.git/'') = Inl (HTTPError 404 None)
        \<and> fst (TreeHandler_get (posix_env []) example_handler ''/.git/'')
            = example_handler\<lparr>log := [(Info, ''Refusing to serve hidden directory, via 404 Error'')]\<rparr>"
    using tree_not_found_iff[OF refl refl, of "posix_env []" example_handler "''/.git/''"]
    by (simp add: example_defs strip_def)
  moreover have "snd (TreeHandler_get (posix_env []) example_handler ''/missing'') = Inl (HTTPError 404 None)"
    using tree_not_found_iff[OF refl refl, of "posix_env []" example_handler "''/missing''"]
    by (simp add: example_defs strip_def)
  moreover have "snd (TreeHandler_get (posix_env []) (example_handler\<lparr>contents_manager := example_contents\<lparr>allow_hidden := True\<rparr>\<rparr>) ''/.git/'')
       = Inr (Write ''<tree.html>'')"
    by (simp add: handler_defs example_defs library_defs)
  ultimately show ?thesis by (simp add: prod_eq_iff)
qed

text \<open>
  Claim C2. When \<open>path\<close> is not an existing directory and is an existing file, the
  handler asks the contents manager for the entry with \<open>content=False\<close> and redirects:
  to the base URL joined with \<open>notebooks\<close> and the escaped path when the entry's type is
  \<open>notebook\<close>, to the base URL joined with \<open>files\<close> and the escaped path for every
  other type.
\<close>

theorem tree_file_redirect:
  assumes "path = strip CHR ''/'' path0" and "cm = contents_manager h"
    and "\<not> dir_exists cm path" and "file_exists cm path"
  shows "snd (TreeHandler_get e h path0) =
           Inr (Redirect
             (if model_type (cm_get cm path False) = ''notebook''
              then ujoin e [self_base_url h, ''notebooks'', url_escape e path]
              else ujoin e [self_base_url h, ''files'', url_escape e path]))"
  using assms by (simp add: TreeHandler_get_def redirect_file_def Let_def)

theorem tree_file_redirect_witness:
  "snd (TreeHandler_get (posix_env []) example_handler ''/a.ipynb'')
     = Inr (Redirect ''/jupyter/notebooks/a.ipynb'')
   \<and> snd (TreeHandler_get (posix_env []) example_handler ''readme.txt'')
     = Inr (Redirect ''/jupyter/files/readme.txt'')"
proof -
  have d1: "\<not> dir_exists (contents_manager example_handler) (strip CHR ''/'' ''/a.ipynb'')"
    and f1: "file_exists (contents_manager example_handler) (strip CHR ''/'' ''/a.ipynb'')"
    and d2: "\<not> dir_exists (contents_manager example_handler) (strip CHR ''/'' ''readme.txt'')"
    and f2: "file_exists (contents_manager example_handler) (strip CHR ''/'' ''readme.txt'')"
    by (simp_all add: example_defs strip_def)
  show ?thesis
    using tree_file_redirect[OF refl refl d1 f1, of "posix_env []"]
      tree_file_redirect[OF refl refl d2 f2, of "posix_env []"]
    by (simp add: example_defs library_defs)
qed

text \<open>
  Claim C10. The hidden check belongs to the directory branch only. For a path that is an
  existing file and not an existing directory the handler redirects, and its answer is the
  same whatever \<open>is_hidden\<close> and \<open>allow_hidden\<close> say: a hidden file is redirected
  even when hidden paths are not allowed.
\<close>

theorem tree_file_ignores_hidden:
  assumes "path = strip CHR ''/'' path0" and "cm = contents_manager h"
    and "\<not> dir_exists cm path" and "file_exists cm path"
  shows "(\<exists>url. snd (TreeHandler_get e h path0) = Inr (Redirect url))
       \<and> snd (TreeHandler_get e (h\<lparr>contents_manager := cm\<lparr>is_hidden := hidden, allow_hidden := allow\<rparr>\<rparr>) path0)
           = snd (TreeHandler_get e h path0)"
  using assms by (simp add: TreeHandler_get_def redirect_file_def Let_def)

theorem tree_file_ignores_hidden_witness:
  "is_hidden (contents_manager example_handler) ''.env''
   \<and> \<not> allow_hidden (contents_manager example_handler)
   \<and> snd (TreeHandler_get (posix_env []) example_handler ''/.env'') = Inr (Redirect ''/jupyter/files/.env'')"
proof -
  have d: "\<not> dir_exists (contents_manager example_handler) (strip CHR ''/'' ''/.env'')"
    and f: "file_exists (contents_manager example_handler) (strip CHR ''/'' ''/.env'')"
    by (simp_all add: example_defs strip_def)
  have "snd (TreeHandler_get (posix_env []) example_handler ''/.env'') = Inr (Redirect ''/jupyter/files/.env'')"
    by (simp add: handler_defs example_defs library_defs)
  with tree_file_ignores_hidden[OF refl refl d f, where e = "posix_env []" and hidden = "\<lambda>p. False" and allow = True]
  show ?thesis by (simp add: example_defs)
qed

section \<open>The page configuration\<close>














section \<open>The custom stylesheet\<close>

lemma startswith_iff: "startswith s p = (\<exists>rest. s = p @ rest)"
  unfolding startswith_def
  by (metis append_eq_conv_conj append_take_drop_id)

lemma re_match_static_sound:
  "re_match_static s = Some g
   \<Longrightarrow> (\<exists>rest. s = g @ ''static'' @ rest) \<and> CHR 0x0A \<notin> set g
       \<and> (\<forall>g' rest'. s = g' @ ''static'' @ rest' \<longrightarrow> length g \<le> length g')"
proof (induction s arbitrary: g)
  case Nil
  then show ?case by simp
next
  case (Cons c cs)
  show ?case
  proof (cases "startswith (c # cs) ''static''")
    case True
    with Cons.prems have "g = []" by simp
    with True show ?thesis by (simp add: startswith_iff)
  next
    case False
    with Cons.prems have nl: "c \<noteq> CHR 0x0A"
      by (auto split: if_splits)
    with False Cons.prems obtain g0 where g0: "re_match_static cs = Some g0" and g: "g = c # g0"
      by auto
    from Cons.IH[OF g0] obtain rest where rest: "cs = g0 @ ''static'' @ rest"
      and nl0: "CHR 0x0A \<notin> set g0"
      and min0: "\<forall>g' rest'. cs = g' @ ''static'' @ rest' \<longrightarrow> length g0 \<le> length g'"
      by blast
    have "length g \<le> length g'" if eq: "c # cs = g' @ ''static'' @ rest'" for g' rest'
    proof (cases g')
      case Nil
      with eq False show ?thesis by (simp add: startswith_iff)
    next
      case (Cons d g'')
      with eq have "cs = g'' @ ''static'' @ rest'" by simp
      with min0 have "length g0 \<le> length g''" by blast
      with Cons g show ?thesis by simp
    qed
    with rest nl nl0 g show ?thesis by auto
  qed
qed

lemma re_match_static_complete:
  "s = g @ ''static'' @ rest \<Longrightarrow> CHR 0x0A \<notin> set g
   \<Longrightarrow> \<forall>g' rest'. s = g' @ ''static'' @ rest' \<longrightarrow> length g \<le> length g'
   \<Longrightarrow> re_match_static s = Some g"
proof (induction g arbitrary: s)
  case Nil
  then have "startswith s ''static''" by (simp add: startswith_iff)
  with Nil show ?case by simp
next
  case (Cons c g0)
  let ?cs = "g0 @ ''static'' @ rest"
  have s: "s = c # ?cs" using Cons.prems(1) by simp
  have not_start: "\<not> startswith s ''static''"
  proof
    assume "startswith s ''static''"
    then obtain r where "s = [] @ ''static'' @ r" by (auto simp add: startswith_iff)
    with Cons.prems(3) have "length (c # g0) \<le> length ([]::string)" by blast
    then show False by simp
  qed
  have min0: "\<forall>g' rest'. ?cs = g' @ ''static'' @ rest' \<longrightarrow> length g0 \<le> length g'"
  proof (intro allI impI)
    fix g' rest'
    assume "?cs = g' @ ''static'' @ rest'"
    with s have "s = (c # g') @ ''static'' @ rest'" by simp
    with Cons.prems(3) have "length (c # g0) \<le> length (c # g')" by blast
    then show "length g0 \<le> length g'" by simp
  qed
  from Cons.prems(2) have "CHR 0x0A \<notin> set g0" and "c \<noteq> CHR 0x0A" by auto
  with Cons.IH[OF refl _ min0] not_start s show ?case by simp
qed

lemma re_match_static_iff:
  "(re_match_static s = Some g) =
     ((\<exists>rest. s = g @ ''static'' @ rest) \<and> CHR 0x0A \<notin> set g
      \<and> (\<forall>g' rest'. s = g' @ ''static'' @ rest' \<longrightarrow> length g \<le> length g'))"
  using re_match_static_sound[of s g] re_match_static_complete[of s g] by blast

text \<open>
  Claim C6. The handler first forms the primary candidate, the configuration directory
  followed by \<open>/custom/custom.css\<close>, and keeps it when it is a file. When it is not a
  file, the handler matches the static directory against \<open>^(.*?)static\<close>: on a match
  the candidate becomes the matched group followed by \<open>custom/custom.css\<close>, and without
  a match no fallback is formed and the primary candidate stays. The pattern matches with
  group \<open>g\<close> exactly when \<open>g\<close> is the shortest prefix of the static directory that is
  followed by \<open>static\<close>, and \<open>g\<close> holds no line break (the dot of the pattern does
  not match one).
\<close>

theorem custom_css_candidates:
  assumes "map_of page_config ''jupyterConfigDir'' = Some (PStr config_dir)"
    and "primary = config_dir @ ''/custom/custom.css''"
  shows "(is_file e primary \<longrightarrow> custom_css_file e page_config = Inr primary)
       \<and> (\<not> is_file e primary \<and> map_of page_config ''staticDir'' = Some (PStr static_dir) \<longrightarrow>
            (\<forall>g. re_match_static static_dir = Some g
                  \<longrightarrow> custom_css_file e page_config = Inr (g @ ''custom/custom.css''))
            \<and> (re_match_static static_dir = None \<longrightarrow> custom_css_file e page_config = Inr primary))
       \<and> (\<forall>g. (re_match_static static_dir = Some g) =
                 ((\<exists>rest. static_dir = g @ ''static'' @ rest) \<and> CHR 0x0A \<notin> set g
                  \<and> (\<forall>g' rest'. static_dir = g' @ ''static'' @ rest' \<longrightarrow> length g \<le> length g')))"
proof -
  from assms have
    "(is_file e primary \<longrightarrow> custom_css_file e page_config = Inr primary)
     \<and> (\<not> is_file e primary \<and> map_of page_config ''staticDir'' = Some (PStr static_dir) \<longrightarrow>
            (\<forall>g. re_match_static static_dir = Some g
                  \<longrightarrow> custom_css_file e page_config = Inr (g @ ''custom/custom.css''))
            \<and> (re_match_static static_dir = None \<longrightarrow> custom_css_file e page_config = Inr primary))"
    by (simp add: custom_css_file_def fstring_def Let_def)
  with re_match_static_iff[of static_dir] show ?thesis
    by blast
qed

theorem custom_css_candidates_witness:
  "custom_css_file (posix_env [(''/home/jovyan/.jupyter/custom/custom.css'', TextFile ''body {}'')])
       (css_page_config ''/opt/share/jupyter/lab/static'')
     = Inr ''/home/jovyan/.jupyter/custom/custom.css''
   \<and> custom_css_file (posix_env []) (css_page_config ''/opt/share/jupyter/lab/static'')
     = Inr ''/opt/share/jupyter/lab/custom/custom.css''
   \<and> custom_css_file (posix_env []) (css_page_config ''/opt/share/jupyter/lab/assets'')
     = Inr ''/home/jovyan/.jupyter/custom/custom.css''"
proof -
  have cfg: "map_of (css_page_config d) ''jupyterConfigDir'' = Some (PStr ''/home/jovyan/.jupyter'')" for d
    by (simp add: css_page_config_def)
  have m1: "re_match_static ''/opt/share/jupyter/lab/static'' = Some ''/opt/share/jupyter/lab/''"
    and m2: "re_match_static ''/opt/share/jupyter/lab/assets'' = None"
    by (simp_all add: startswith_def)
  have f1: "is_file (posix_env [(''/home/jovyan/.jupyter/custom/custom.css'', TextFile ''body {}'')])
              ''/home/jovyan/.jupyter/custom/custom.css''"
    and f2: "\<not> is_file (posix_env []) ''/home/jovyan/.jupyter/custom/custom.css''"
    by (simp_all add: posix_env_def)
  have sd: "map_of (css_page_config d) ''staticDir'' = Some (PStr d)" for d
    by (simp add: css_page_config_def)
  note a = custom_css_candidates[OF cfg refl,
        of "posix_env [(''/home/jovyan/.jupyter/custom/custom.css'', TextFile ''body {}'')]"
           "''/opt/share/jupyter/lab/static''" "''/opt/share/jupyter/lab/static''", THEN conjunct1]
  note b = custom_css_candidates[OF cfg refl,
        of "posix_env []" "''/opt/share/jupyter/lab/static''" "''/opt/share/jupyter/lab/static''",
        THEN conjunct2, THEN conjunct1]
  note c = custom_css_candidates[OF cfg refl,
        of "posix_env []" "''/opt/share/jupyter/lab/assets''" "''/opt/share/jupyter/lab/assets''",
        THEN conjunct2, THEN conjunct1]
  from a f1 b c f2 sd m1 m2 show ?thesis
    by simp
qed

text \<open>
  Claim C7, as amended. Once the page configuration is built and the candidate chosen,
  the handler reads the candidate. When the read raises an \<open>IOError\<close> (the file is
  missing, or is there and may not be opened or read), the handler logs the error and ends
  with \<open>HTTPError(500, "Custom CSS file not found.")\<close>. When the read raises an
  exception of another class, the \<open>except IOError\<close> clause does not apply: the
  exception leaves the handler as it is, with no log entry and no fixed message. When the
  read succeeds the handler writes the text of the file, and the \<open>Content-Type\<close>
  header is \<open>text/css\<close>. No run of the handler ends with a 404. The claim speaks of
  every failing read; a file whose bytes do not decode makes \<open>read()\<close> raise
  \<open>UnicodeDecodeError\<close>, which is not an \<open>IOError\<close>.
\<close>

theorem custom_css_read:
  assumes "get_page_config e (h\<lparr>headers := AList.update ''Content-Type'' ''text/css'' (headers h)\<rparr>)
             = (h1, Inr page_config)"
    and "custom_css_file e page_config = Inr file"
  shows "(\<forall>msg. read_text e file = Inl (IOError msg) \<longrightarrow>
            CustomCssHandler_get e h =
              (h1\<lparr>log := log h1 @ [(Error, ''Error reading custom CSS file: '' @ msg)]\<rparr>,
               Inl (HTTPError 500 (Some ''Custom CSS file not found.''))))
       \<and> (\<forall>x. read_text e file = Inl (OtherError x) \<longrightarrow>
            CustomCssHandler_get e h = (h1, Inl (Uncaught x)))
       \<and> (\<forall>css. read_text e file = Inr css \<longrightarrow>
            CustomCssHandler_get e h = (h1, Inr (Write css))
            \<and> map_of (headers h1) ''Content-Type'' = Some ''text/css'')
       \<and> (\<forall>m. snd (CustomCssHandler_get e h) \<noteq> Inl (HTTPError 404 m))"
proof -
  have "headers (fst (get_page_config e (h\<lparr>headers := AList.update ''Content-Type'' ''text/css'' (headers h)\<rparr>)))
          = AList.update ''Content-Type'' ''text/css'' (headers h)"
    by (simp add: get_page_config_headers)
  with assms(1) have "headers h1 = AList.update ''Content-Type'' ''text/css'' (headers h)"
    by simp
  then have ct: "map_of (headers h1) ''Content-Type'' = Some ''text/css''"
    by (simp add: AList.update_conv')
  from assms ct show ?thesis
    by (auto simp add: CustomCssHandler_get_def Let_def split: sum.splits read_failure.splits)
qed

lemma example_css_run:
  "\<exists>h1 pc. get_page_config (posix_env fs)
              (example_handler\<lparr>headers := AList.update ''Content-Type'' ''text/css'' (headers example_handler)\<rparr>)
            = (h1, Inr pc)
          \<and> log h1 = []
          \<and> map_of pc ''jupyterConfigDir'' = Some (PStr ''/home/jovyan/.jupyter'')
          \<and> map_of pc ''staticDir'' = Some (PStr ''/opt/share/jupyter/lab/static'')"
  by (simp add: handler_defs example_defs library_defs)

lemma example_css_file:
  assumes "map_of pc ''jupyterConfigDir'' = Some (PStr ''/home/jovyan/.jupyter'')"
    and "map_of pc ''staticDir'' = Some (PStr ''/opt/share/jupyter/lab/static'')"
    and "map_of fs ''/home/jovyan/.jupyter/custom/custom.css'' = None"
  shows "custom_css_file (posix_env fs) pc = Inr ''/opt/share/jupyter/lab/custom/custom.css''"
proof -
  have "re_match_static ''/opt/share/jupyter/lab/static'' = Some ''/opt/share/jupyter/lab/''"
    by (simp add: startswith_def)
  with assms show ?thesis
    by (simp add: custom_css_file_def fstring_def posix_env_def del: re_match_static.simps)
qed

theorem custom_css_read_witness:
  "snd (CustomCssHandler_get (posix_env []) example_handler)
     = Inl (HTTPError 500 (Some ''Custom CSS file not found.''))
   \<and> log (fst (CustomCssHandler_get (posix_env []) example_handler))
     = [(Error, ''Error reading custom CSS file: [Errno 2] No such file or directory: ''
                  @ [CHR 0x27] @ ''/opt/share/jupyter/lab/custom/custom.css'' @ [CHR 0x27])]
   \<and> snd (CustomCssHandler_get
            (posix_env [(''/opt/share/jupyter/lab/custom/custom.css'', TextFile ''body {}'')])
            example_handler)
     = Inr (Write ''body {}'')"
proof -
  let ?h0 = "example_handler\<lparr>headers := AList.update ''Content-Type'' ''text/css'' (headers example_handler)\<rparr>"
  let ?fs = "[(''/opt/share/jupyter/lab/custom/custom.css'', TextFile ''body {}'')]"
  from example_css_run[of "[]"] obtain h1 pc where
    g1: "get_page_config (posix_env []) ?h0 = (h1, Inr pc)" and l1: "log h1 = []"
    and c1: "map_of pc ''jupyterConfigDir'' = Some (PStr ''/home/jovyan/.jupyter'')"
    and s1: "map_of pc ''staticDir'' = Some (PStr ''/opt/share/jupyter/lab/static'')"
    by blast
  from example_css_run[of ?fs] obtain h2 pc2 where
    g2: "get_page_config (posix_env ?fs) ?h0 = (h2, Inr pc2)"
    and c2: "map_of pc2 ''jupyterConfigDir'' = Some (PStr ''/home/jovyan/.jupyter'')"
    and s2: "map_of pc2 ''staticDir'' = Some (PStr ''/opt/share/jupyter/lab/static'')"
    by blast
  have n1: "map_of ([]::(string \<times> file_entry) list) ''/home/jovyan/.jupyter/custom/custom.css'' = None"
    and n2: "map_of ?fs ''/home/jovyan/.jupyter/custom/custom.css'' = None"
    by simp_all
  have r1: "read_text (posix_env []) ''/opt/share/jupyter/lab/custom/custom.css''
              = Inl (IOError (''[Errno 2] No such file or directory: ''
                       @ [CHR 0x27] @ ''/opt/share/jupyter/lab/custom/custom.css'' @ [CHR 0x27]))"
    and r2: "read_text (posix_env ?fs) ''/opt/share/jupyter/lab/custom/custom.css'' = Inr ''body {}''"
    by (simp_all add: posix_env_def posix_read_text_def)
  from custom_css_read[OF g1 example_css_file[OF c1 s1 n1], THEN conjunct1] r1 l1
    custom_css_read[OF g2 example_css_file[OF c2 s2 n2], THEN conjunct2, THEN conjunct2, THEN conjunct1] r2
  show ?thesis by simp
qed

theorem custom_css_read_counterexample:
  "is_file (posix_env [(''/opt/share/jupyter/lab/custom/custom.css'', BinaryFile)])
     ''/opt/share/jupyter/lab/custom/custom.css''
   \<and> read_text (posix_env [(''/opt/share/jupyter/lab/custom/custom.css'', BinaryFile)])
        ''/opt/share/jupyter/lab/custom/custom.css'' = Inl (OtherError UnicodeDecodeError)
   \<and> snd (CustomCssHandler_get
            (posix_env [(''/opt/share/jupyter/lab/custom/custom.css'', BinaryFile)])
            example_handler)
       = Inl (Uncaught UnicodeDecodeError)
   \<and> log (fst (CustomCssHandler_get
            (posix_env [(''/opt/share/jupyter/lab/custom/custom.css'', BinaryFile)])
            example_handler)) = []"
proof -
  let ?h0 = "example_handler\<lparr>headers := AList.update ''Content-Type'' ''text/css'' (headers example_handler)\<rparr>"
  let ?fs = "[(''/opt/share/jupyter/lab/custom/custom.css'', BinaryFile)]"
  from example_css_run[of ?fs] obtain h1 pc where
    g: "get_page_config (posix_env ?fs) ?h0 = (h1, Inr pc)" and l: "log h1 = []"
    and c: "map_of pc ''jupyterConfigDir'' = Some (PStr ''/home/jovyan/.jupyter'')"
    and s: "map_of pc ''staticDir'' = Some (PStr ''/opt/share/jupyter/lab/static'')"
    by blast
  have n: "map_of ?fs ''/home/jovyan/.jupyter/custom/custom.css'' = None"
    by simp
  have r: "read_text (posix_env ?fs) ''/opt/share/jupyter/lab/custom/custom.css''
             = Inl (OtherError UnicodeDecodeError)"
    and f: "is_file (posix_env ?fs) ''/opt/share/jupyter/lab/custom/custom.css''"
    by (simp_all add: posix_env_def posix_read_text_def)
  from g example_css_file[OF c s n] r l f show ?thesis
    by (simp add: CustomCssHandler_get_def)
qed

end
